theory Spec2Isabelle
  imports Main
begin

section \<open>Squares, colours and pieces\<close>

text \<open>
  The chess engine of \<^verbatim>\<open>project2_17C_chessGame.cpp\<close>. A \<^verbatim>\<open>Position\<close> holds a
  \<^verbatim>\<open>char\<close> column and an \<^verbatim>\<open>int\<close> row. The column is kept as the character's code in
  \<open>0..255\<close> (\<open>'a'\<close> is 97, \<open>'h'\<close> is 104); the conversion of an \<^verbatim>\<open>int\<close> to \<^verbatim>\<open>char\<close>
  that the constructor performs is \<open>to_char\<close>. Rows stay far away from the limits of
  \<^verbatim>\<open>int\<close> (they come from one input character and from steps of at most 8), so they are
  unbounded integers.
\<close>

datatype Color = WHITE | BLACK

record Position =
  column :: int
  row :: int

definition to_char :: "int \<Rightarrow> int" where
  "to_char i = i mod 256"

datatype Kind = Pawn | Rook | Knight | Bishop | Queen | King

record ChessPiece =
  kind :: Kind
  color :: Color
  position :: Position
  hasMoved :: bool

text \<open>
  The occupancy map stores \<^verbatim>\<open>ChessPiece*\<close>. Every live piece is referenced from at most one
  entry of the map, so an entry carries the object it points to; \<open>nullptr\<close> is the null
  pointer, which \<^verbatim>\<open>operator[]\<close> stores under a key that was absent. The two places where
  the source reaches one object through two pointers (a trial move from a square to itself,
  an en-passant removal of the moving pawn) are written out where they occur.
\<close>

datatype piece_ptr = nullptr | ptr_to ChessPiece

datatype fault = NullDereference | OutOfRange | UseAfterFree | StringIndex

fun bind_f :: "fault + 'a \<Rightarrow> ('a \<Rightarrow> fault + 'b) \<Rightarrow> fault + 'b" where
  "bind_f (Inl e) f = Inl e"
| "bind_f (Inr x) f = f x"

definition toString :: "ChessPiece \<Rightarrow> string" where
  "toString p =
     (case kind p of
        Pawn \<Rightarrow> (if color p = WHITE then ''P'' else ''p'')
      | Rook \<Rightarrow> (if color p = WHITE then ''R'' else ''r'')
      | Knight \<Rightarrow> (if color p = WHITE then ''N'' else ''n'')
      | Bishop \<Rightarrow> (if color p = WHITE then ''B'' else ''b'')
      | Queen \<Rightarrow> (if color p = WHITE then ''Q'' else ''q'')
      | King \<Rightarrow> (if color p = WHITE then ''K'' else ''k''))"

section \<open>The containers\<close>

text \<open>
  \<^verbatim>\<open>std::set<Position>\<close> is a strictly increasing list under \<^verbatim>\<open>operator<\<close>, the
  lexicographic order on (column, row).
\<close>

definition pos_less :: "Position \<Rightarrow> Position \<Rightarrow> bool" where
  "pos_less p q = (column p < column q \<or> (column p = column q \<and> row p < row q))"

fun set_insert :: "Position \<Rightarrow> Position list \<Rightarrow> Position list" where
  "set_insert p [] = [p]"
| "set_insert p (q # qs) =
     (if pos_less p q then p # q # qs
      else if pos_less q p then q # set_insert p qs
      else q # qs)"

text \<open>
  \<^verbatim>\<open>std::unordered_map<Position, ChessPiece*>\<close> is a list of entries with distinct keys.
  The language leaves the order of iteration open; here a new key goes to the end of the
  list and an assignment to a present key keeps its place.
\<close>

type_synonym pieceMap = "(Position \<times> piece_ptr) list"

fun um_assign :: "pieceMap \<Rightarrow> Position \<Rightarrow> piece_ptr \<Rightarrow> pieceMap" where
  "um_assign [] k v = [(k, v)]"
| "um_assign ((k', v') # m) k v =
     (if k' = k then (k, v) # m else (k', v') # um_assign m k v)"

fun um_erase :: "pieceMap \<Rightarrow> Position \<Rightarrow> pieceMap" where
  "um_erase [] k = []"
| "um_erase ((k', v') # m) k = (if k' = k then um_erase m k else (k', v') # um_erase m k)"

text \<open>\<^verbatim>\<open>m[k]\<close> read as a value: the stored pointer, and the map with a null entry added
  when the key was absent.\<close>

definition um_index :: "pieceMap \<Rightarrow> Position \<Rightarrow> piece_ptr \<times> pieceMap" where
  "um_index m k =
     (case map_of m k of
        None \<Rightarrow> (nullptr, um_assign m k nullptr)
      | Some v \<Rightarrow> (v, m))"

section \<open>Move generation\<close>

definition inBounds :: "Position \<Rightarrow> bool" where
  "inBounds p = (row p \<ge> 1 \<and> row p \<le> 8 \<and> column p \<ge> 97 \<and> column p \<le> 104)"

subsection \<open>Pawn\<close>

fun pawn_captures ::
  "ChessPiece \<Rightarrow> pieceMap \<Rightarrow> int \<Rightarrow> int list \<Rightarrow> Position list \<Rightarrow> fault + Position list" where
  "pawn_captures p board direction [] moves = Inr moves"
| "pawn_captures p board direction (dc # dcs) moves =
     (case map_of board
             \<lparr>column = to_char (column (position p) + dc), row = row (position p) + direction\<rparr> of
        None \<Rightarrow> pawn_captures p board direction dcs moves
      | Some nullptr \<Rightarrow> Inl NullDereference
      | Some (ptr_to q) \<Rightarrow>
          pawn_captures p board direction dcs
            (if color q = color p then moves
             else set_insert
                    \<lparr>column = to_char (column (position p) + dc),
                     row = row (position p) + direction\<rparr> moves))"

definition Pawn_legalMoves ::
  "ChessPiece \<Rightarrow> pieceMap \<Rightarrow> Position \<Rightarrow> bool \<Rightarrow> fault + Position list" where
  "Pawn_legalMoves p board lastMovePos enPassantAvailable =
     (let direction = (if color p = WHITE then 1 else - 1);
          oneStep = \<lparr>column = column (position p), row = row (position p) + direction\<rparr>;
          twoStep = \<lparr>column = column (position p), row = row (position p) + 2 * direction\<rparr>;
          moves1 =
            (if map_of board oneStep = None
             then (if hasMoved p then set_insert oneStep []
                   else if map_of board twoStep = None
                        then set_insert twoStep (set_insert oneStep [])
                        else set_insert oneStep [])
             else [])
      in bind_f (pawn_captures p board direction [- 1, 1] moves1) (\<lambda>moves2.
           if enPassantAvailable \<and> \<not> hasMoved p then
             (if lastMovePos = \<lparr>column = to_char (column (position p) - 1), row = row (position p)\<rparr>
                 \<or> lastMovePos = \<lparr>column = to_char (column (position p) + 1), row = row (position p)\<rparr>
              then
                (case map_of board lastMovePos of
                   None \<Rightarrow> Inl OutOfRange
                 | Some nullptr \<Rightarrow> Inr moves2
                 | Some (ptr_to adjacentPawn) \<Rightarrow>
                     (if toString adjacentPawn = (if color p = WHITE then ''p'' else ''P'')
                         \<and> \<not> hasMoved adjacentPawn
                      then Inr (set_insert
                                  \<lparr>column = column lastMovePos, row = row (position p) + direction\<rparr>
                                  moves2)
                      else Inr moves2))
              else Inr moves2)
           else Inr moves2))"

subsection \<open>Rook\<close>

fun rook_files :: "ChessPiece \<Rightarrow> int list \<Rightarrow> Position list \<Rightarrow> Position list" where
  "rook_files p [] moves = moves"
| "rook_files p (i # is) moves =
     rook_files p is
       (if i = row (position p) then moves
        else set_insert \<lparr>column = column (position p), row = i\<rparr> moves)"

fun rook_ranks :: "ChessPiece \<Rightarrow> int list \<Rightarrow> Position list \<Rightarrow> Position list" where
  "rook_ranks p [] moves = moves"
| "rook_ranks p (i # is) moves =
     rook_ranks p is
       (if i = column (position p) - 97 + 1 then moves
        else set_insert \<lparr>column = to_char (97 + i - 1), row = row (position p)\<rparr> moves)"

definition Rook_legalMoves :: "ChessPiece \<Rightarrow> Position list" where
  "Rook_legalMoves p = rook_ranks p [1..8] (rook_files p [1..8] [])"

subsection \<open>Knight\<close>

fun knight_loop :: "ChessPiece \<Rightarrow> (int \<times> int) list \<Rightarrow> Position list \<Rightarrow> Position list" where
  "knight_loop p [] moves = moves"
| "knight_loop p ((dx, dy) # ds) moves =
     knight_loop p ds
       (if row (position p) + dx \<ge> 1 \<and> row (position p) + dx \<le> 8
           \<and> column (position p) + dy \<ge> 97 \<and> column (position p) + dy \<le> 104
        then set_insert
               \<lparr>column = to_char (column (position p) + dy), row = row (position p) + dx\<rparr> moves
        else moves)"

definition Knight_legalMoves :: "ChessPiece \<Rightarrow> Position list" where
  "Knight_legalMoves p =
     knight_loop p (zip [2, 2, - 2, - 2, 1, 1, - 1, - 1] [1, - 1, 1, - 1, 2, - 2, 2, - 2]) []"

subsection \<open>Bishop and the diagonals of the queen\<close>

text \<open>
  One of the four blocks of the loop body: the square is added when it is on the board and
  empty or held by the other colour; the flag says that the \<^verbatim>\<open>break\<close> was reached.
\<close>

definition diag_probe ::
  "ChessPiece \<Rightarrow> pieceMap \<Rightarrow> Position \<Rightarrow> Position list \<Rightarrow> fault + (Position list \<times> bool)" where
  "diag_probe p board sq moves =
     (if inBounds sq then
        (case map_of board sq of
           None \<Rightarrow> Inr (set_insert sq moves, False)
         | Some nullptr \<Rightarrow> Inl NullDereference
         | Some (ptr_to q) \<Rightarrow>
             (if color q = color p then Inr (moves, False)
              else Inr (set_insert sq moves, True)))
      else Inr (moves, False))"

definition diag_square :: "ChessPiece \<Rightarrow> int \<Rightarrow> int \<Rightarrow> Position" where
  "diag_square p dc dr =
     \<lparr>column = to_char (column (position p) + dc), row = row (position p) + dr\<rparr>"

fun diag_loop ::
  "ChessPiece \<Rightarrow> pieceMap \<Rightarrow> int list \<Rightarrow> Position list \<Rightarrow> fault + Position list" where
  "diag_loop p board [] moves = Inr moves"
| "diag_loop p board (i # is) moves =
     (case diag_probe p board (diag_square p i i) moves of
        Inl e \<Rightarrow> Inl e
      | Inr (m1, brk1) \<Rightarrow>
          if brk1 then Inr m1
          else
            (case diag_probe p board (diag_square p (- i) i) m1 of
               Inl e \<Rightarrow> Inl e
             | Inr (m2, brk2) \<Rightarrow>
                 if brk2 then Inr m2
                 else
                   (case diag_probe p board (diag_square p i (- i)) m2 of
                      Inl e \<Rightarrow> Inl e
                    | Inr (m3, brk3) \<Rightarrow>
                        if brk3 then Inr m3
                        else
                          (case diag_probe p board (diag_square p (- i) (- i)) m3 of
                             Inl e \<Rightarrow> Inl e
                           | Inr (m4, brk4) \<Rightarrow>
                               if brk4 then Inr m4 else diag_loop p board is m4))))"

definition Bishop_legalMoves :: "ChessPiece \<Rightarrow> pieceMap \<Rightarrow> fault + Position list" where
  "Bishop_legalMoves p board = diag_loop p board [1..8] []"

subsection \<open>Queen\<close>

fun queen_lines :: "ChessPiece \<Rightarrow> int list \<Rightarrow> Position list \<Rightarrow> Position list" where
  "queen_lines p [] moves = moves"
| "queen_lines p (i # is) moves =
     queen_lines p is
       (let m1 = (if i = row (position p) then moves
                  else set_insert \<lparr>column = column (position p), row = i\<rparr> moves)
        in if i = column (position p) - 97 + 1 then m1
           else set_insert \<lparr>column = to_char (97 + i - 1), row = row (position p)\<rparr> m1)"

definition Queen_legalMoves :: "ChessPiece \<Rightarrow> pieceMap \<Rightarrow> fault + Position list" where
  "Queen_legalMoves p board = diag_loop p board [1..8] (queen_lines p [1..8] [])"

subsection \<open>King\<close>

fun king_loop ::
  "ChessPiece \<Rightarrow> pieceMap \<Rightarrow> (int \<times> int) list \<Rightarrow> Position list \<Rightarrow> fault + Position list" where
  "king_loop p board [] moves = Inr moves"
| "king_loop p board ((dx, dy) # ds) moves =
     (if dx = 0 \<and> dy = 0 then king_loop p board ds moves
      else if inBounds \<lparr>column = to_char (column (position p) + dx), row = row (position p) + dy\<rparr>
      then
        (case map_of board
                \<lparr>column = to_char (column (position p) + dx), row = row (position p) + dy\<rparr> of
           None \<Rightarrow>
             king_loop p board ds
               (set_insert
                  \<lparr>column = to_char (column (position p) + dx), row = row (position p) + dy\<rparr>
                  moves)
         | Some nullptr \<Rightarrow> Inl NullDereference
         | Some (ptr_to q) \<Rightarrow>
             king_loop p board ds
               (if color q = color p then moves
                else set_insert
                       \<lparr>column = to_char (column (position p) + dx),
                        row = row (position p) + dy\<rparr> moves))
      else king_loop p board ds moves)"

definition King_legalMoves :: "ChessPiece \<Rightarrow> pieceMap \<Rightarrow> fault + Position list" where
  "King_legalMoves p board =
     king_loop p board
       [(- 1, - 1), (- 1, 0), (- 1, 1), (0, - 1), (0, 0), (0, 1), (1, - 1), (1, 0), (1, 1)] []"

subsection \<open>The virtual call\<close>

definition legalMoves ::
  "ChessPiece \<Rightarrow> pieceMap \<Rightarrow> Position \<Rightarrow> bool \<Rightarrow> fault + Position list" where
  "legalMoves p board lastMovePos enPassantAvailable =
     (case kind p of
        Pawn \<Rightarrow> Pawn_legalMoves p board lastMovePos enPassantAvailable
      | Rook \<Rightarrow> Inr (Rook_legalMoves p)
      | Knight \<Rightarrow> Inr (Knight_legalMoves p)
      | Bishop \<Rightarrow> Bishop_legalMoves p board
      | Queen \<Rightarrow> Queen_legalMoves p board
      | King \<Rightarrow> King_legalMoves p board)"

section \<open>The board\<close>

record Board =
  pieceMap :: pieceMap
  turn :: Color
  lastMovePos :: Position
  enPassantAvailable :: bool
  whiteCastleKingSide :: bool
  whiteCastleQueenSide :: bool
  blackCastleKingSide :: bool
  blackCastleQueenSide :: bool

definition new_piece :: "Kind \<Rightarrow> Color \<Rightarrow> int \<Rightarrow> int \<Rightarrow> ChessPiece" where
  "new_piece k c col r =
     \<lparr>kind = k, color = c, position = \<lparr>column = col, row = r\<rparr>, hasMoved = False\<rparr>"

definition place :: "Kind \<Rightarrow> Color \<Rightarrow> int \<Rightarrow> int \<Rightarrow> pieceMap \<Rightarrow> pieceMap" where
  "place k c col r m = um_assign m \<lparr>column = col, row = r\<rparr> (ptr_to (new_piece k c col r))"

fun place_pawns :: "Color \<Rightarrow> int \<Rightarrow> int list \<Rightarrow> pieceMap \<Rightarrow> pieceMap" where
  "place_pawns c r [] m = m"
| "place_pawns c r (col # cols) m = place_pawns c r cols (place Pawn c col r m)"

definition back_rank :: "Color \<Rightarrow> int \<Rightarrow> pieceMap \<Rightarrow> pieceMap" where
  "back_rank c r m =
     place Rook c 104 r (place Knight c 103 r (place Bishop c 102 r (place King c 101 r
       (place Queen c 100 r (place Bishop c 99 r (place Knight c 98 r (place Rook c 97 r m)))))))"

definition initialize :: "pieceMap \<Rightarrow> pieceMap" where
  "initialize m =
     place_pawns BLACK 7 [97..104]
       (back_rank BLACK 8 (place_pawns WHITE 2 [97..104] (back_rank WHITE 1 m)))"

definition new_Board :: Board where
  "new_Board =
     \<lparr>pieceMap = initialize [], turn = WHITE, lastMovePos = \<lparr>column = 97, row = 1\<rparr>,
      enPassantAvailable = False,
      whiteCastleKingSide = True, whiteCastleQueenSide = True,
      blackCastleKingSide = True, blackCastleQueenSide = True\<rparr>"

definition canCastleKingSide :: "Board \<Rightarrow> Color \<Rightarrow> bool" where
  "canCastleKingSide b c = (if c = WHITE then whiteCastleKingSide b else blackCastleKingSide b)"

definition canCastleQueenSide :: "Board \<Rightarrow> Color \<Rightarrow> bool" where
  "canCastleQueenSide b c = (if c = WHITE then whiteCastleQueenSide b else blackCastleQueenSide b)"

definition updateCastlingRights :: "Board \<Rightarrow> Color \<Rightarrow> string \<Rightarrow> Board" where
  "updateCastlingRights b c pieceType =
     (if c = WHITE then
        (if pieceType = ''king''
         then b\<lparr>whiteCastleKingSide := False, whiteCastleQueenSide := False\<rparr> else b)
      else
        (if pieceType = ''king''
         then b\<lparr>blackCastleKingSide := False, blackCastleQueenSide := False\<rparr> else b))"

section \<open>Executing a move\<close>

text \<open>
  \<^verbatim>\<open>s[i]\<close> on a \<^verbatim>\<open>const std::string\<close>: the character, the terminating zero at
  \<open>i = size\<close>, undefined beyond. The square is \<^verbatim>\<open>Position(s[0], s[1] - '0')\<close>. A
  character is read as its code in \<open>0..255\<close>, which is its value on every platform for
  the characters below 128 that a square is written with.
\<close>

definition str_at :: "string \<Rightarrow> nat \<Rightarrow> fault + int" where
  "str_at s i =
     (if i < length s then Inr (of_char (s ! i))
      else if i = length s then Inr 0
      else Inl StringIndex)"

definition parsePos :: "string \<Rightarrow> fault + Position" where
  "parsePos s =
     bind_f (str_at s 0) (\<lambda>c. bind_f (str_at s 1) (\<lambda>d. Inr \<lparr>column = c, row = d - 48\<rparr>))"

text \<open>
  The body of either castling branch: \<open>rookCol\<close> is the corner file, \<open>kingCol\<close> the file
  written into the king's position, \<open>side\<close> the string handed to
  \<^verbatim>\<open>updateCastlingRights\<close>. The read \<^verbatim>\<open>pieceMap[rookPos]\<close> leaves a null entry behind
  when the corner is not a key of the map.
\<close>

definition castle ::
  "Board \<Rightarrow> ChessPiece \<Rightarrow> Position \<Rightarrow> int \<Rightarrow> int \<Rightarrow> string \<Rightarrow> Board \<times> ChessPiece" where
  "castle b piece fromPos rookCol kingCol side =
     (case um_index (pieceMap b) \<lparr>column = rookCol, row = row fromPos\<rparr> of
        (nullptr, m1) \<Rightarrow> (b\<lparr>pieceMap := m1\<rparr>, piece)
      | (ptr_to rook, m1) \<Rightarrow>
          (if toString rook = (if color piece = WHITE then ''R'' else ''r'')
           then (updateCastlingRights
                   (b\<lparr>pieceMap :=
                        um_assign m1 \<lparr>column = rookCol, row = row fromPos\<rparr>
                          (ptr_to (rook\<lparr>position := \<lparr>column = 101, row = row fromPos\<rparr>\<rparr>))\<rparr>)
                   (color piece) side,
                 piece\<lparr>position := \<lparr>column = kingCol, row = row fromPos\<rparr>\<rparr>)
           else (b\<lparr>pieceMap := m1\<rparr>, piece)))"

text \<open>
  Lines 567 to 585: the en-passant removal, the relocation, and the bookkeeping. When the
  square of the removed pawn is the origin square, the moving piece itself is deleted and
  then written to.
\<close>

definition finishMove ::
  "Board \<Rightarrow> ChessPiece \<Rightarrow> Position \<Rightarrow> Position \<Rightarrow> bool \<Rightarrow> fault + (bool \<times> Board)" where
  "finishMove b piece fromPos toPos enPassantCapture =
     (if enPassantCapture \<and> \<lparr>column = column toPos, row = row fromPos\<rparr> = fromPos
      then Inl UseAfterFree
      else
        (let m1 = (if enPassantCapture
                   then um_erase
                          (snd (um_index (pieceMap b) \<lparr>column = column toPos, row = row fromPos\<rparr>))
                          \<lparr>column = column toPos, row = row fromPos\<rparr>
                   else pieceMap b);
             m2 = um_erase
                    (um_assign m1 toPos (ptr_to (piece\<lparr>position := toPos, hasMoved := True\<rparr>)))
                    fromPos
         in Inr (True,
                 b\<lparr>pieceMap := m2, lastMovePos := toPos, enPassantAvailable := False,
                   turn := (if turn b = WHITE then BLACK else WHITE)\<rparr>)))"

definition movePiece :: "Board \<Rightarrow> string \<Rightarrow> string \<Rightarrow> fault + (bool \<times> Board)" where
  "movePiece b from to =
     bind_f (parsePos from) (\<lambda>fromPos. bind_f (parsePos to) (\<lambda>toPos.
       case map_of (pieceMap b) fromPos of
         None \<Rightarrow> Inr (False, b)
       | Some nullptr \<Rightarrow> Inl NullDereference
       | Some (ptr_to piece) \<Rightarrow>
           (if kind piece = Pawn then
              bind_f (Pawn_legalMoves piece (pieceMap b) (lastMovePos b) (enPassantAvailable b))
                (\<lambda>moves.
                   if toPos \<in> set moves then
                     finishMove (b\<lparr>enPassantAvailable := (\<bar>row toPos - row fromPos\<bar> = 2)\<rparr>)
                       piece fromPos toPos
                       (enPassantAvailable b
                          \<and> lastMovePos b = \<lparr>column = column toPos, row = row fromPos\<rparr>)
                   else Inr (False, b))
            else if toString piece = (if color piece = WHITE then ''K'' else ''k'')
                    \<and> canCastleKingSide b (color piece)
                    \<and> toPos = \<lparr>column = 103, row = row fromPos\<rparr> then
              (case castle b piece fromPos 104 102 ''king'' of
                 (b', piece') \<Rightarrow> finishMove b' piece' fromPos toPos False)
            else if toString piece = (if color piece = WHITE then ''K'' else ''k'')
                    \<and> canCastleQueenSide b (color piece)
                    \<and> toPos = \<lparr>column = 99, row = row fromPos\<rparr> then
              (case castle b piece fromPos 97 100 ''queen'' of
                 (b', piece') \<Rightarrow> finishMove b' piece' fromPos toPos False)
            else finishMove b piece fromPos toPos False)))"

section \<open>Check, checkmate and stalemate\<close>

fun findKing_loop :: "pieceMap \<Rightarrow> Color \<Rightarrow> fault + piece_ptr" where
  "findKing_loop [] c = Inr nullptr"
| "findKing_loop ((k, nullptr) # m) c = Inl NullDereference"
| "findKing_loop ((k, ptr_to q) # m) c =
     (if color q = c \<and> toString q = (if c = WHITE then ''K'' else ''k'')
      then Inr (ptr_to q) else findKing_loop m c)"

definition findKing :: "Board \<Rightarrow> Color \<Rightarrow> fault + piece_ptr" where
  "findKing b c = findKing_loop (pieceMap b) c"

fun attack_loop :: "Board \<Rightarrow> pieceMap \<Rightarrow> Color \<Rightarrow> Position \<Rightarrow> fault + bool" where
  "attack_loop b [] c kingPos = Inr False"
| "attack_loop b ((k, nullptr) # m) c kingPos = Inl NullDereference"
| "attack_loop b ((k, ptr_to q) # m) c kingPos =
     (if color q = c then attack_loop b m c kingPos
      else
        (case legalMoves q (pieceMap b) (lastMovePos b) (enPassantAvailable b) of
           Inl e \<Rightarrow> Inl e
         | Inr moves \<Rightarrow>
             if kingPos \<in> set moves then Inr True else attack_loop b m c kingPos))"

definition isInCheck :: "Board \<Rightarrow> Color \<Rightarrow> fault + bool" where
  "isInCheck b c =
     bind_f (findKing b c) (\<lambda>king.
       case king of
         nullptr \<Rightarrow> Inl NullDereference
       | ptr_to k \<Rightarrow> attack_loop b (pieceMap b) c (position k))"

text \<open>
  The trial move. The squares are taken by value: the source passes \<^verbatim>\<open>entry.first\<close> by
  reference and erases that entry, which the model does not hold against it. When the two
  squares are equal, \<^verbatim>\<open>capturedPiece\<close> is the moving piece itself.
\<close>

definition simulateMoveAndCheck ::
  "Board \<Rightarrow> Position \<Rightarrow> Position \<Rightarrow> Color \<Rightarrow> fault + (bool \<times> Board)" where
  "simulateMoveAndCheck b from to c =
     (case um_index (pieceMap b) from of
        (nullptr, m1) \<Rightarrow> Inl NullDereference
      | (ptr_to piece, m1) \<Rightarrow>
          (case um_index m1 to of
             (capturedPiece, m2) \<Rightarrow>
               (case isInCheck
                       (b\<lparr>pieceMap :=
                            um_erase (um_assign m2 to (ptr_to (piece\<lparr>position := to\<rparr>))) from\<rparr>) c of
                  Inl e \<Rightarrow> Inl e
                | Inr inCheck \<Rightarrow>
                    Inr (inCheck,
                         b\<lparr>pieceMap :=
                             um_assign
                               (um_assign
                                  (um_erase
                                     (um_assign m2 to (ptr_to (piece\<lparr>position := to\<rparr>))) from)
                                  from (ptr_to (piece\<lparr>position := from\<rparr>)))
                               to (if to = from then ptr_to (piece\<lparr>position := from\<rparr>)
                                   else capturedPiece)\<rparr>))))"

text \<open>
  The inner loop over the moves of one piece, and the outer loop over the entries. The
  outer loop visits the keys that the map has when the loop starts and leaves as soon as a
  trial move returns false; \<open>True\<close> in the result of \<open>trial_moves\<close> says that this
  happened.
\<close>

fun trial_moves ::
  "Board \<Rightarrow> Position \<Rightarrow> Position list \<Rightarrow> Color \<Rightarrow> fault + (bool \<times> Board)" where
  "trial_moves b from [] c = Inr (False, b)"
| "trial_moves b from (mv # mvs) c =
     (case simulateMoveAndCheck b from mv c of
        Inl e \<Rightarrow> Inl e
      | Inr (inCheck, b') \<Rightarrow> if inCheck then trial_moves b' from mvs c else Inr (True, b'))"

fun trial_loop :: "Board \<Rightarrow> Position list \<Rightarrow> Color \<Rightarrow> fault + (bool \<times> Board)" where
  "trial_loop b [] c = Inr (True, b)"
| "trial_loop b (k # ks) c =
     (case map_of (pieceMap b) k of
        None \<Rightarrow> trial_loop b ks c
      | Some nullptr \<Rightarrow> Inl NullDereference
      | Some (ptr_to q) \<Rightarrow>
          (if color q = c then
             (case legalMoves q (pieceMap b) (lastMovePos b) (enPassantAvailable b) of
                Inl e \<Rightarrow> Inl e
              | Inr moves \<Rightarrow>
                  (case trial_moves b k moves c of
                     Inl e \<Rightarrow> Inl e
                   | Inr (left, b') \<Rightarrow> if left then Inr (False, b') else trial_loop b' ks c))
           else trial_loop b ks c))"

definition isCheckmate :: "Board \<Rightarrow> Color \<Rightarrow> fault + (bool \<times> Board)" where
  "isCheckmate b c =
     (case isInCheck b c of
        Inl e \<Rightarrow> Inl e
      | Inr inCheck \<Rightarrow>
          if inCheck then trial_loop b (map fst (pieceMap b)) c else Inr (False, b))"

definition isStalemate :: "Board \<Rightarrow> Color \<Rightarrow> fault + (bool \<times> Board)" where
  "isStalemate b c =
     (case isInCheck b c of
        Inl e \<Rightarrow> Inl e
      | Inr inCheck \<Rightarrow>
          if inCheck then Inr (False, b) else trial_loop b (map fst (pieceMap b)) c)"

text \<open>
  Successive calls of \<^verbatim>\<open>movePiece\<close> on one board, as a client of the class issues
  them; the run stops at the first call that is refused.
\<close>

fun play_moves :: "Board \<Rightarrow> (string \<times> string) list \<Rightarrow> fault + (bool \<times> Board)" where
  "play_moves b [] = Inr (True, b)"
| "play_moves b ((from, to) # ms) =
     (case movePiece b from to of
        Inl e \<Rightarrow> Inl e
      | Inr (ok, b') \<Rightarrow> if ok then play_moves b' ms else Inr (False, b'))"

text \<open>
  What the status loop does with one entry when it meets it first: the trial of the
  smallest move of the piece. The predicate holds when the entry is skipped, or when that
  trial goes to a square that is not a key of the map, reports no check and leaves a null
  entry under that square.
\<close>

definition first_trial_leaves_null :: "Board \<Rightarrow> Color \<Rightarrow> Position \<times> piece_ptr \<Rightarrow> bool" where
  "first_trial_leaves_null b c entry =
     (case entry of
        (k, nullptr) \<Rightarrow> False
      | (k, ptr_to q) \<Rightarrow>
          (if color q = c then
             (case legalMoves q (pieceMap b) (lastMovePos b) (enPassantAvailable b) of
                Inl e \<Rightarrow> False
              | Inr [] \<Rightarrow> False
              | Inr (mv # mvs) \<Rightarrow>
                  (case simulateMoveAndCheck b k mv c of
                     Inl e \<Rightarrow> False
                   | Inr (inCheck, b') \<Rightarrow>
                       \<not> inCheck \<and> map_of (pieceMap b) mv = None
                         \<and> map_of (pieceMap b') mv = Some nullptr))
           else True))"

section \<open>Facts about the containers and the move executor\<close>

lemma bind_f_case: "bind_f m f = (case m of Inl e \<Rightarrow> Inl e | Inr x \<Rightarrow> f x)"
  by (cases m) simp_all

lemma map_of_um_assign: "map_of (um_assign m k v) = (map_of m)(k \<mapsto> v)"
  by (induction m k v rule: um_assign.induct) auto

lemma map_of_um_erase: "map_of (um_erase m k) = (map_of m)(k := None)"
  by (induction m k rule: um_erase.induct) auto

lemma finishMove_plain:
  "finishMove b piece fromPos toPos False =
     Inr (True,
          b\<lparr>pieceMap :=
               um_erase
                 (um_assign (pieceMap b) toPos
                    (ptr_to (piece\<lparr>position := toPos, hasMoved := True\<rparr>)))
                 fromPos,
            lastMovePos := toPos, enPassantAvailable := False,
            turn := (if turn b = WHITE then BLACK else WHITE)\<rparr>)"
  by (simp add: finishMove_def)

lemma finishMove_result:
  "finishMove b piece fromPos toPos ep = Inr (ok, b') \<Longrightarrow>
     ok \<and> turn b' = (if turn b = WHITE then BLACK else WHITE) \<and> \<not> enPassantAvailable b'"
  by (auto simp add: finishMove_def Let_def split: if_splits)

lemma castle_turn:
  "castle (b\<lparr>turn := t\<rparr>) piece fromPos rookCol kingCol side =
     (case castle b piece fromPos rookCol kingCol side of
        (b', piece') \<Rightarrow> (b'\<lparr>turn := t\<rparr>, piece'))"
  by (simp add: castle_def updateCastlingRights_def split: prod.splits piece_ptr.splits)

lemma turn_castle:
  "castle b piece fromPos rookCol kingCol side = (b', piece') \<Longrightarrow> turn b' = turn b"
  by (auto simp add: castle_def updateCastlingRights_def
        split: prod.splits piece_ptr.splits if_splits)

text \<open>
  The flag \<^verbatim>\<open>enPassantAvailable\<close> is false after every call of \<^verbatim>\<open>movePiece\<close> that
  returns true: line 582 clears it on the only path that reaches \<^verbatim>\<open>return true\<close>.
\<close>

lemma movePiece_clears_enPassant:
  "movePiece b from to = Inr (True, b') \<Longrightarrow> \<not> enPassantAvailable b'"
  unfolding movePiece_def bind_f_case
  by (auto split: sum.splits prod.splits option.splits piece_ptr.splits if_splits
        dest!: finishMove_result)

text \<open>
  A call whose origin square is not a key of the map (the test
  \<^verbatim>\<open>pieceMap.find(fromPos) == pieceMap.end()\<close> of line 512) returns false, and the
  whole board (map, turn, last move, en-passant flag, castling rights) is as before. The
  two strings are read before the test, so both must be readable at index 0 and 1.
\<close>

lemma movePiece_absent_key_refused:
  assumes "parsePos from = Inr fromPos" and "parsePos to = Inr toPos"
    and "map_of (pieceMap b) fromPos = None"
  shows "movePiece b from to = Inr (False, b)"
  using assms by (simp add: movePiece_def)

lemma movePiece_absent_key_refused_on_new_Board:
  "parsePos ''e4'' = Inr \<lparr>column = 101, row = 4\<rparr>
   \<and> parsePos ''e5'' = Inr \<lparr>column = 101, row = 5\<rparr>
   \<and> map_of (pieceMap new_Board) \<lparr>column = 101, row = 4\<rparr> = None
   \<and> movePiece new_Board ''e4'' ''e5'' = Inr (False, new_Board)"
proof -
  have p1: "parsePos ''e4'' = Inr \<lparr>column = 101, row = 4\<rparr>" by code_simp
  have p2: "parsePos ''e5'' = Inr \<lparr>column = 101, row = 5\<rparr>" by code_simp
  have e: "map_of (pieceMap new_Board) \<lparr>column = 101, row = 4\<rparr> = None" by code_simp
  from movePiece_absent_key_refused [OF p1 p2 e] p1 p2 e show ?thesis by simp
qed

text \<open>
  A key that carries the null pointer passes the test of line 512, and the call goes on to
  \<^verbatim>\<open>piece->toString()\<close>.
\<close>

lemma movePiece_null_entry_faults:
  assumes "parsePos from = Inr fromPos" and "parsePos to = Inr toPos"
    and "map_of (pieceMap b) fromPos = Some nullptr"
  shows "movePiece b from to = Inl NullDereference"
  using assms by (simp add: movePiece_def)

text \<open>Every call that returns true flips the turn marker.\<close>

lemma movePiece_flips_turn:
  "movePiece b from to = Inr (True, b') \<Longrightarrow>
     turn b' = (if turn b = WHITE then BLACK else WHITE)"
  unfolding movePiece_def bind_f_case
  by (auto split: sum.splits prod.splits option.splits piece_ptr.splits if_splits
        dest!: finishMove_result turn_castle)

text \<open>
  A piece that is not a pawn is never refused: whatever the destination, the call returns
  true.
\<close>

lemma movePiece_nonpawn_succeeds:
  assumes "parsePos from = Inr fromPos" and "parsePos to = Inr toPos"
    and "map_of (pieceMap b) fromPos = Some (ptr_to piece)" and "kind piece \<noteq> Pawn"
  shows "\<exists>b'. movePiece b from to = Inr (True, b')"
  using assms
  by (simp add: movePiece_def finishMove_plain case_prod_beta)

text \<open>
  A trial move onto a square that is not a key of the map, when it returns, leaves a null
  entry under that square: \<^verbatim>\<open>pieceMap[to]\<close> creates the entry, and the revert writes the
  null pointer back instead of erasing it.
\<close>

lemma simulateMoveAndCheck_leaves_null:
  assumes "map_of (pieceMap b) to = None"
    and "simulateMoveAndCheck b from to c = Inr (inCheck, b')"
  shows "map_of (pieceMap b') to = Some nullptr"
proof (cases "map_of (pieceMap b) from")
  case None
  with assms(2) show ?thesis
    by (simp add: simulateMoveAndCheck_def um_index_def)
next
  case (Some p)
  with assms(1) have ne: "to \<noteq> from" by auto
  from Some assms ne show ?thesis
    by (cases p)
       (auto simp add: simulateMoveAndCheck_def um_index_def map_of_um_assign
          split: sum.splits)
qed

section \<open>The claims\<close>

text \<open>
  C1: a move of any piece to a square outside its pseudo-legal set is refused without a
  change of state. The code refuses pawns only. On the new board the knight on b1 has the
  pseudo-legal moves a3, c3 and d2; \<^verbatim>\<open>movePiece("b1", "b5")\<close> returns true, the knight
  stands on b5 afterwards, b1 is vacated and the turn has passed to Black.
\<close>

theorem movePiece_accepts_move_outside_legalMoves:
  "map_of (pieceMap new_Board) \<lparr>column = 98, row = 1\<rparr> = Some (ptr_to (new_piece Knight WHITE 98 1))
   \<and> legalMoves (new_piece Knight WHITE 98 1) (pieceMap new_Board) (lastMovePos new_Board)
        (enPassantAvailable new_Board)
       = Inr [\<lparr>column = 97, row = 3\<rparr>, \<lparr>column = 99, row = 3\<rparr>, \<lparr>column = 100, row = 2\<rparr>]
   \<and> (case movePiece new_Board ''b1'' ''b5'' of
         Inl e \<Rightarrow> False
       | Inr (ok, b') \<Rightarrow>
           ok
           \<and> map_of (pieceMap b') \<lparr>column = 98, row = 5\<rparr>
               = Some (ptr_to \<lparr>kind = Knight, color = WHITE,
                               position = \<lparr>column = 98, row = 5\<rparr>, hasMoved = True\<rparr>)
           \<and> map_of (pieceMap b') \<lparr>column = 98, row = 1\<rparr> = None
           \<and> turn b' = BLACK)"
  by code_simp

text \<open>
  C2: \<^verbatim>\<open>isCheckmate\<close> and \<^verbatim>\<open>isStalemate\<close> leave the occupancy map as it was and
  answer the same on every call. The code does neither. After 1. e2-e4 Nb8-c6
  2. Ra1-a5 Ng8-f6 the call \<^verbatim>\<open>isStalemate(WHITE)\<close> returns false and leaves a null
  entry under a3, a square that was not a key before; the next call of
  \<^verbatim>\<open>isStalemate(WHITE)\<close> or \<^verbatim>\<open>isCheckmate(WHITE)\<close> dereferences that null pointer.
\<close>

theorem isStalemate_changes_pieceMap:
  "(case play_moves new_Board
           [(''e2'', ''e4''), (''b8'', ''c6''), (''a1'', ''a5''), (''g8'', ''f6'')] of
      Inl e \<Rightarrow> False
    | Inr (ok, b) \<Rightarrow>
        ok
        \<and> (case isStalemate b WHITE of
             Inl e \<Rightarrow> False
           | Inr (stalemate, b') \<Rightarrow>
               \<not> stalemate
               \<and> map_of (pieceMap b) \<lparr>column = 97, row = 3\<rparr> = None
               \<and> map_of (pieceMap b') \<lparr>column = 97, row = 3\<rparr> = Some nullptr
               \<and> isStalemate b' WHITE = Inl NullDereference
               \<and> isCheckmate b' WHITE = Inl NullDereference))"
  by code_simp

text \<open>
  In that position the outcome does not hang on the order in which the map is traversed:
  whichever white piece the loop meets first, the trial of its smallest move goes to an
  empty square, reports no check, and leaves the null entry.
\<close>

lemma isStalemate_trials_order_free:
  "(case play_moves new_Board
           [(''e2'', ''e4''), (''b8'', ''c6''), (''a1'', ''a5''), (''g8'', ''f6'')] of
      Inl e \<Rightarrow> False
    | Inr (ok, b) \<Rightarrow> ok \<and> list_all (first_trial_leaves_null b WHITE) (pieceMap b))"
  by code_simp

text \<open>
  C3: after a successful move \<^verbatim>\<open>enPassantAvailable\<close> is true exactly when the move was a
  pawn advance of two ranks. In the code the flag is false after every successful move
  (\<open>movePiece_clears_enPassant\<close>). On the new board \<^verbatim>\<open>movePiece("e2", "e4")\<close> returns
  true, the pawn has gone from rank 2 to rank 4, and the flag is false.
\<close>

theorem enPassantAvailable_false_after_double_step:
  "(case movePiece new_Board ''e2'' ''e4'' of
      Inl e \<Rightarrow> False
    | Inr (ok, b') \<Rightarrow>
        ok
        \<and> map_of (pieceMap new_Board) \<lparr>column = 101, row = 2\<rparr>
            = Some (ptr_to (new_piece Pawn WHITE 101 2))
        \<and> map_of (pieceMap b') \<lparr>column = 101, row = 4\<rparr>
            = Some (ptr_to \<lparr>kind = Pawn, color = WHITE,
                            position = \<lparr>column = 101, row = 4\<rparr>, hasMoved = True\<rparr>)
        \<and> lastMovePos b' = \<lparr>column = 101, row = 4\<rparr>
        \<and> enPassantAvailable b' = False)"
  by code_simp

text \<open>
  C4: along every ray a bishop, rook or queen reaches the empty squares before the first
  occupied square, that square only when it holds an opposing piece, and nothing beyond.
  On the new board the rook on a1 is given the whole a-file and the whole first rank,
  with its own pawn on a2 and every square behind it; the bishop on c1 is given a3 and
  e3 to h6, beyond its own pawns on b2 and d2; the queen on d1 is given d2, where its own
  pawn stands, and d3 to d8 behind it.
\<close>

theorem sliding_pieces_pass_blockers:
  "map_of (pieceMap new_Board) \<lparr>column = 97, row = 2\<rparr> = Some (ptr_to (new_piece Pawn WHITE 97 2))
   \<and> map_of (pieceMap new_Board) \<lparr>column = 98, row = 2\<rparr> = Some (ptr_to (new_piece Pawn WHITE 98 2))
   \<and> map_of (pieceMap new_Board) \<lparr>column = 100, row = 2\<rparr> = Some (ptr_to (new_piece Pawn WHITE 100 2))
   \<and> legalMoves (new_piece Rook WHITE 97 1) (pieceMap new_Board) (lastMovePos new_Board)
        (enPassantAvailable new_Board)
       = Inr [\<lparr>column = 97, row = 2\<rparr>, \<lparr>column = 97, row = 3\<rparr>, \<lparr>column = 97, row = 4\<rparr>,
              \<lparr>column = 97, row = 5\<rparr>, \<lparr>column = 97, row = 6\<rparr>, \<lparr>column = 97, row = 7\<rparr>,
              \<lparr>column = 97, row = 8\<rparr>, \<lparr>column = 98, row = 1\<rparr>, \<lparr>column = 99, row = 1\<rparr>,
              \<lparr>column = 100, row = 1\<rparr>, \<lparr>column = 101, row = 1\<rparr>, \<lparr>column = 102, row = 1\<rparr>,
              \<lparr>column = 103, row = 1\<rparr>, \<lparr>column = 104, row = 1\<rparr>]
   \<and> legalMoves (new_piece Bishop WHITE 99 1) (pieceMap new_Board) (lastMovePos new_Board)
        (enPassantAvailable new_Board)
       = Inr [\<lparr>column = 97, row = 3\<rparr>, \<lparr>column = 101, row = 3\<rparr>, \<lparr>column = 102, row = 4\<rparr>,
              \<lparr>column = 103, row = 5\<rparr>, \<lparr>column = 104, row = 6\<rparr>]
   \<and> legalMoves (new_piece Queen WHITE 100 1) (pieceMap new_Board) (lastMovePos new_Board)
        (enPassantAvailable new_Board)
       = Inr [\<lparr>column = 97, row = 1\<rparr>, \<lparr>column = 97, row = 4\<rparr>, \<lparr>column = 98, row = 1\<rparr>,
              \<lparr>column = 98, row = 3\<rparr>, \<lparr>column = 99, row = 1\<rparr>, \<lparr>column = 100, row = 2\<rparr>,
              \<lparr>column = 100, row = 3\<rparr>, \<lparr>column = 100, row = 4\<rparr>, \<lparr>column = 100, row = 5\<rparr>,
              \<lparr>column = 100, row = 6\<rparr>, \<lparr>column = 100, row = 7\<rparr>, \<lparr>column = 100, row = 8\<rparr>,
              \<lparr>column = 101, row = 1\<rparr>, \<lparr>column = 102, row = 1\<rparr>, \<lparr>column = 102, row = 3\<rparr>,
              \<lparr>column = 103, row = 1\<rparr>, \<lparr>column = 103, row = 4\<rparr>, \<lparr>column = 104, row = 1\<rparr>,
              \<lparr>column = 104, row = 5\<rparr>]"
  by code_simp

text \<open>
  C5: once a king has moved, both castling rights of its colour are false for good. The
  code revokes them only inside the king-side castling branch. After 1. e2-e4 e7-e5
  2. Ke1-e2 the white king stands on e2 and has moved, and both white rights are still
  true; a queen-side castling move, e1 to c1 on the new board, leaves them true as well,
  because that branch hands the string "queen" to \<^verbatim>\<open>updateCastlingRights\<close>.
\<close>

theorem king_move_keeps_castling_rights:
  "(case play_moves new_Board [(''e2'', ''e4''), (''e7'', ''e5''), (''e1'', ''e2'')] of
      Inl e \<Rightarrow> False
    | Inr (ok, b) \<Rightarrow>
        ok
        \<and> map_of (pieceMap b) \<lparr>column = 101, row = 2\<rparr>
            = Some (ptr_to \<lparr>kind = King, color = WHITE,
                            position = \<lparr>column = 101, row = 2\<rparr>, hasMoved = True\<rparr>)
        \<and> whiteCastleKingSide b \<and> whiteCastleQueenSide b)
   \<and> (case movePiece new_Board ''e1'' ''c1'' of
         Inl e \<Rightarrow> False
       | Inr (ok, b) \<Rightarrow>
           ok
           \<and> map_of (pieceMap b) \<lparr>column = 99, row = 1\<rparr>
               = Some (ptr_to \<lparr>kind = King, color = WHITE,
                               position = \<lparr>column = 99, row = 1\<rparr>, hasMoved = True\<rparr>)
           \<and> whiteCastleKingSide b \<and> whiteCastleQueenSide b)"
  by code_simp

text \<open>
  C6: when White castles king-side, the king ends on g1 and the rook on f1, e1 and h1 are
  vacated, and the recorded positions agree with the map. After 1. e2-e4 e7-e5
  2. Ng1-f3 Ng8-f6 3. Bf1-c4 Bf8-c5 the call \<^verbatim>\<open>movePiece("e1", "g1")\<close> returns true
  and puts the king on g1, but the rook is still the entry of h1, f1 is empty, and the
  position recorded in the rook is e1.
\<close>

theorem castling_leaves_rook_in_corner:
  "(case play_moves new_Board
           [(''e2'', ''e4''), (''e7'', ''e5''), (''g1'', ''f3''), (''g8'', ''f6''),
            (''f1'', ''c4''), (''f8'', ''c5'')] of
      Inl e \<Rightarrow> False
    | Inr (ok, b) \<Rightarrow>
        ok
        \<and> whiteCastleKingSide b
        \<and> map_of (pieceMap b) \<lparr>column = 101, row = 1\<rparr> = Some (ptr_to (new_piece King WHITE 101 1))
        \<and> map_of (pieceMap b) \<lparr>column = 104, row = 1\<rparr> = Some (ptr_to (new_piece Rook WHITE 104 1))
        \<and> map_of (pieceMap b) \<lparr>column = 102, row = 1\<rparr> = None
        \<and> map_of (pieceMap b) \<lparr>column = 103, row = 1\<rparr> = None
        \<and> (case movePiece b ''e1'' ''g1'' of
             Inl e \<Rightarrow> False
           | Inr (ok', b') \<Rightarrow>
               ok'
               \<and> map_of (pieceMap b') \<lparr>column = 103, row = 1\<rparr>
                   = Some (ptr_to \<lparr>kind = King, color = WHITE,
                                   position = \<lparr>column = 103, row = 1\<rparr>, hasMoved = True\<rparr>)
               \<and> map_of (pieceMap b') \<lparr>column = 101, row = 1\<rparr> = None
               \<and> map_of (pieceMap b') \<lparr>column = 102, row = 1\<rparr> = None
               \<and> map_of (pieceMap b') \<lparr>column = 104, row = 1\<rparr>
                   = Some (ptr_to \<lparr>kind = Rook, color = WHITE,
                                   position = \<lparr>column = 101, row = 1\<rparr>, hasMoved = False\<rparr>)))"
  by code_simp

text \<open>
  C7: after a white pawn has gone from rank 2 to rank 4 beside a black pawn on rank 4,
  that black pawn may capture it en passant on the next move. After 1. a2-a3 d7-d5
  2. a3-a4 d5-d4 3. e2-e4 the black pawn on d4 stands beside the white pawn on e4, which
  was the last to move. The flag is false, the pawn on d4 has d3 as its only pseudo-legal
  move, and \<^verbatim>\<open>movePiece("d4", "e3")\<close> returns false and changes nothing. Even with the
  flag set the generator would not offer e3: it asks that neither pawn has moved.
\<close>

theorem en_passant_not_offered:
  "(case play_moves new_Board
           [(''a2'', ''a3''), (''d7'', ''d5''), (''a3'', ''a4''), (''d5'', ''d4''),
            (''e2'', ''e4'')] of
      Inl e \<Rightarrow> False
    | Inr (ok, b) \<Rightarrow>
        ok
        \<and> turn b = BLACK
        \<and> lastMovePos b = \<lparr>column = 101, row = 4\<rparr>
        \<and> enPassantAvailable b = False
        \<and> map_of (pieceMap b) \<lparr>column = 101, row = 4\<rparr>
            = Some (ptr_to \<lparr>kind = Pawn, color = WHITE,
                            position = \<lparr>column = 101, row = 4\<rparr>, hasMoved = True\<rparr>)
        \<and> map_of (pieceMap b) \<lparr>column = 100, row = 4\<rparr>
            = Some (ptr_to \<lparr>kind = Pawn, color = BLACK,
                            position = \<lparr>column = 100, row = 4\<rparr>, hasMoved = True\<rparr>)
        \<and> legalMoves \<lparr>kind = Pawn, color = BLACK, position = \<lparr>column = 100, row = 4\<rparr>,
                       hasMoved = True\<rparr>
             (pieceMap b) (lastMovePos b) (enPassantAvailable b)
            = Inr [\<lparr>column = 100, row = 3\<rparr>]
        \<and> legalMoves \<lparr>kind = Pawn, color = BLACK, position = \<lparr>column = 100, row = 4\<rparr>,
                       hasMoved = True\<rparr>
             (pieceMap b) (lastMovePos b) True
            = Inr [\<lparr>column = 100, row = 3\<rparr>]
        \<and> movePiece b ''d4'' ''e3'' = Inr (False, b))"
  by code_simp

text \<open>
  C8: the move set of a knight leaves out the squares held by its own colour. The code
  filters by the bounds of the board only. On the new board the knight on b1 is given
  a3, c3 and d2, and d2 holds a white pawn.
\<close>

theorem Knight_legalMoves_keeps_own_square:
  "map_of (pieceMap new_Board) \<lparr>column = 98, row = 1\<rparr> = Some (ptr_to (new_piece Knight WHITE 98 1))
   \<and> map_of (pieceMap new_Board) \<lparr>column = 100, row = 2\<rparr> = Some (ptr_to (new_piece Pawn WHITE 100 2))
   \<and> legalMoves (new_piece Knight WHITE 98 1) (pieceMap new_Board) (lastMovePos new_Board)
        (enPassantAvailable new_Board)
       = Inr [\<lparr>column = 97, row = 3\<rparr>, \<lparr>column = 99, row = 3\<rparr>, \<lparr>column = 100, row = 2\<rparr>]
   \<and> Knight_legalMoves (new_piece Knight WHITE 98 1)
       = [\<lparr>column = 97, row = 3\<rparr>, \<lparr>column = 99, row = 3\<rparr>, \<lparr>column = 100, row = 2\<rparr>]"
  by code_simp

text \<open>
  C9: when no piece stands on the origin square, \<^verbatim>\<open>movePiece\<close> returns false and leaves
  the whole board as it was. The code does so when the square is not a key of the map
  (\<open>movePiece_absent_key_refused\<close>), but a square can be a key and hold no piece. After
  Rh1-h3 and Ke1-g1 the rook stands on h3, and the read \<^verbatim>\<open>pieceMap[rookPos]\<close> of the
  castling branch has left h1 in the map with the null pointer. No piece stands on h1, and
  \<^verbatim>\<open>movePiece("h1", "h2")\<close> does not return false: it passes the test of line 512 and
  dereferences the null pointer at line 523.
\<close>

theorem movePiece_faults_on_vacated_corner:
  "(case play_moves new_Board [(''h1'', ''h3''), (''e1'', ''g1'')] of
      Inl e \<Rightarrow> False
    | Inr (ok, b) \<Rightarrow>
        ok
        \<and> map_of (pieceMap b) \<lparr>column = 104, row = 3\<rparr>
            = Some (ptr_to \<lparr>kind = Rook, color = WHITE,
                            position = \<lparr>column = 104, row = 3\<rparr>, hasMoved = True\<rparr>)
        \<and> map_of (pieceMap b) \<lparr>column = 103, row = 1\<rparr>
            = Some (ptr_to \<lparr>kind = King, color = WHITE,
                            position = \<lparr>column = 103, row = 1\<rparr>, hasMoved = True\<rparr>)
        \<and> map_of (pieceMap b) \<lparr>column = 104, row = 1\<rparr> = Some nullptr
        \<and> movePiece b ''h1'' ''h2'' = Inl NullDereference)"
  by code_simp

text \<open>
  C10: \<^verbatim>\<open>movePiece\<close> never compares the colour of the moving piece with the side to
  move. Whatever value \<open>t\<close> the turn marker is given, the call faults, fails or succeeds
  as before and produces the same board apart from the marker, which is \<open>t\<close> flipped after
  a success and \<open>t\<close> after a refusal; and every successful call flips the marker exactly
  once, whatever the colour of the piece that moved.
\<close>

theorem movePiece_ignores_turn:
  "movePiece (b\<lparr>turn := t\<rparr>) from to =
     (case movePiece b from to of
        Inl e \<Rightarrow> Inl e
      | Inr (ok, b') \<Rightarrow>
          Inr (ok, b'\<lparr>turn := (if ok then (if t = WHITE then BLACK else WHITE) else t)\<rparr>))
   \<and> (\<forall>b'. movePiece b from to = Inr (True, b') \<longrightarrow>
             turn b' = (if turn b = WHITE then BLACK else WHITE))"
proof
  show "movePiece (b\<lparr>turn := t\<rparr>) from to =
     (case movePiece b from to of
        Inl e \<Rightarrow> Inl e
      | Inr (ok, b') \<Rightarrow>
          Inr (ok, b'\<lparr>turn := (if ok then (if t = WHITE then BLACK else WHITE) else t)\<rparr>))"
  proof (cases "parsePos from")
    case (Inl e)
    then show ?thesis by (simp add: movePiece_def)
  next
    case fp: (Inr fromPos)
    show ?thesis
    proof (cases "parsePos to")
      case (Inl e)
      with fp show ?thesis by (simp add: movePiece_def)
    next
      case tp: (Inr toPos)
      show ?thesis
      proof (cases "map_of (pieceMap b) fromPos")
        case None
        with fp tp show ?thesis by (simp add: movePiece_def)
      next
        case (Some p)
        show ?thesis
        proof (cases p)
          case nullptr
          with Some fp tp show ?thesis by (simp add: movePiece_def)
        next
          case (ptr_to piece)
          show ?thesis
          proof (cases "kind piece = Pawn")
            case True
            with ptr_to Some fp tp show ?thesis
              by (cases "Pawn_legalMoves piece (pieceMap b) (lastMovePos b) (enPassantAvailable b)")
                 (simp_all add: movePiece_def finishMove_def Let_def)
          next
            case False
            with ptr_to Some fp tp show ?thesis
              by (simp add: movePiece_def canCastleKingSide_def canCastleQueenSide_def
                    castle_turn finishMove_plain case_prod_beta)
          qed
        qed
      qed
    qed
  qed
next
  show "\<forall>b'. movePiece b from to = Inr (True, b') \<longrightarrow>
             turn b' = (if turn b = WHITE then BLACK else WHITE)"
    by (intro allI impI) (rule movePiece_flips_turn)
qed

text \<open>On the new board it is White's turn, and the black pawn on e7 moves to e5.\<close>

theorem movePiece_ignores_turn_witness:
  "turn new_Board = WHITE
   \<and> (case movePiece new_Board ''e7'' ''e5'' of
         Inl e \<Rightarrow> False
       | Inr (ok, b') \<Rightarrow>
           ok
           \<and> map_of (pieceMap b') \<lparr>column = 101, row = 5\<rparr>
               = Some (ptr_to \<lparr>kind = Pawn, color = BLACK,
                               position = \<lparr>column = 101, row = 5\<rparr>, hasMoved = True\<rparr>)
           \<and> turn b' = BLACK)"
proof -
  have run:
    "(case movePiece new_Board ''e7'' ''e5'' of
        Inl e \<Rightarrow> False
      | Inr (ok, b') \<Rightarrow>
          ok
          \<and> map_of (pieceMap b') \<lparr>column = 101, row = 5\<rparr>
              = Some (ptr_to \<lparr>kind = Pawn, color = BLACK,
                              position = \<lparr>column = 101, row = 5\<rparr>, hasMoved = True\<rparr>))"
    by code_simp
  then obtain b' where h: "movePiece new_Board ''e7'' ''e5'' = Inr (True, b')"
    and m: "map_of (pieceMap b') \<lparr>column = 101, row = 5\<rparr>
              = Some (ptr_to \<lparr>kind = Pawn, color = BLACK,
                              position = \<lparr>column = 101, row = 5\<rparr>, hasMoved = True\<rparr>)"
    by (auto split: sum.splits)
  have w: "turn new_Board = WHITE" by (simp add: new_Board_def)
  from movePiece_ignores_turn [THEN conjunct2, rule_format, OF h] w
  have "turn b' = BLACK" by simp
  with h m w show ?thesis by simp
qed

end
